theory Spec2Isabelle
  imports Main
begin

section \<open>Strings and calendar dates of the Python runtime\<close>

text \<open>
  A Python \<open>str\<close> is modelled as a \<open>string\<close>, the list of the bytes of its UTF-8 encoding.
  An exception is a value of type \<open>error\<close>; a function that may raise returns
  \<open>error + 'a\<close>, with \<open>Inl\<close> for the exception.
\<close>

datatype error = ValueError string | IndexError | InvalidRange

text \<open>
  \<open>datetime.date\<close>: a (year, month, day) value, compared as that triple. The functions
  below follow the \<open>datetime\<close> module: \<open>_is_leap\<close>, \<open>_days_in_month\<close>,
  \<open>_days_before_year\<close>, \<open>_days_before_month\<close>, \<open>toordinal\<close>, \<open>weekday\<close>
  (Monday is 0, Sunday is 6) and the range check of the constructor.
\<close>

record date =
  year :: nat
  month :: nat
  day :: nat

definition date_less :: "date \<Rightarrow> date \<Rightarrow> bool" where
  "date_less a b =
     (year a < year b \<or> (year a = year b \<and>
        (month a < month b \<or> (month a = month b \<and> day a < day b))))"

definition is_leap :: "nat \<Rightarrow> bool" where
  "is_leap y = (y mod 4 = 0 \<and> (y mod 100 \<noteq> 0 \<or> y mod 400 = 0))"

definition days_in_month :: "nat \<Rightarrow> nat \<Rightarrow> nat" where
  "days_in_month y m =
     (if m = 2 then (if is_leap y then 29 else 28)
      else if m = 4 \<or> m = 6 \<or> m = 9 \<or> m = 11 then 30 else 31)"

definition valid_date :: "date \<Rightarrow> bool" where
  "valid_date d =
     (1 \<le> year d \<and> year d \<le> 9999 \<and> 1 \<le> month d \<and> month d \<le> 12 \<and>
      1 \<le> day d \<and> day d \<le> days_in_month (year d) (month d))"


definition days_before_year :: "nat \<Rightarrow> nat" where
  "days_before_year y =
     (let z = y - 1 in z * 365 + z div 4 - z div 100 + z div 400)"

definition days_before_month :: "nat \<Rightarrow> nat \<Rightarrow> nat" where
  "days_before_month y m =
     (if m = 1 then 0 else if m = 2 then 31 else if m = 3 then 59 else if m = 4 then 90
      else if m = 5 then 120 else if m = 6 then 151 else if m = 7 then 181
      else if m = 8 then 212 else if m = 9 then 243 else if m = 10 then 273
      else if m = 11 then 304 else 334)
     + (if 2 < m \<and> is_leap y then 1 else 0)"

definition toordinal :: "date \<Rightarrow> nat" where
  "toordinal d = days_before_year (year d) + days_before_month (year d) (month d) + day d"

definition weekday :: "date \<Rightarrow> nat" where
  "weekday d = (toordinal d + 6) mod 7"

text \<open>
  \<open>date.isoformat()\<close> is \<open>"%04d-%02d-%02d" % (year, month, day)\<close>: decimal digits,
  padded with zeros on the left to the given width.
\<close>

definition digit_char :: "nat \<Rightarrow> char" where
  "digit_char n = char_of (48 + n)"

fun decimal :: "nat \<Rightarrow> string" where
  "decimal n = (if n < 10 then [digit_char n] else decimal (n div 10) @ [digit_char (n mod 10)])"

declare decimal.simps [simp del]

definition zero_pad :: "nat \<Rightarrow> nat \<Rightarrow> string" where
  "zero_pad w n = replicate (w - length (decimal n)) (CHR ''0'') @ decimal n"

definition isoformat :: "date \<Rightarrow> string" where
  "isoformat d = zero_pad 4 (year d) @ ''-'' @ zero_pad 2 (month d) @ ''-'' @ zero_pad 2 (day d)"

text \<open>
  \<open>date.fromisoformat\<close>, as CPython 3.11 implements it (\<open>date_fromisoformat\<close>,
  \<open>parse_isoformat_date\<close>, \<open>parse_digits\<close>, \<open>iso_to_ymd\<close>, \<open>iso_week1_monday\<close> and
  \<open>ord_to_ymd\<close> of the module's C source). The text has 7, 8 or 10 bytes. It starts with
  the four digits of the year and an optional hyphen. Then comes either the letter
  \<open>W\<close>, the two digits of an ISO week and, if the text goes on, the hyphen (when the
  first one was there) and the digit of the day of the week; or the two digits of the
  month, the hyphen (when the first one was there) and the two digits of the day. What
  follows the last digit is not read. The three numbers then pass the range check of the
  constructor. Everything else raises \<open>ValueError\<close>; the library's message is not kept,
  \<open>_parse_date\<close> replaces it. (CPython 3.7 to 3.10 accept the ten bytes of
  \<open>YYYY-MM-DD\<close> only.)
\<close>

definition digit_val :: "char \<Rightarrow> nat option" where
  "digit_val c = (let n = (of_char c :: nat) in if 48 \<le> n \<and> n \<le> 57 then Some (n - 48) else None)"

fun parse_digits :: "string \<Rightarrow> nat \<Rightarrow> nat option" where
  "parse_digits [] acc = Some acc"
| "parse_digits (c # cs) acc =
     (case digit_val c of None \<Rightarrow> None | Some v \<Rightarrow> parse_digits cs (acc * 10 + v))"

text \<open>
  \<open>parse_digits(p, &var, n)\<close>: the number of the next \<open>n\<close> bytes and the rest of the
  text; it fails on a byte that is no digit, also on the end of the text.
\<close>

definition take_digits :: "nat \<Rightarrow> string \<Rightarrow> (nat \<times> string) option" where
  "take_digits n s =
     (if length s < n then None
      else (case parse_digits (take n s) 0 of None \<Rightarrow> None | Some v \<Rightarrow> Some (v, drop n s)))"

text \<open>\<open>*p == c\<close>: the next byte is \<open>c\<close>; false at the end of the text.\<close>

definition starts_with :: "char \<Rightarrow> string \<Rightarrow> bool" where
  "starts_with c p = (case p of [] \<Rightarrow> False | x # _ \<Rightarrow> x = c)"

text \<open>
  \<open>ord_to_ymd\<close>: the year, month and day of a day number, by the cycles of 400, 100 and
  4 years. The library's leap flag of the year found is \<open>is_leap\<close> of that year (the
  library asserts so), which \<open>days_before_month\<close> uses.
\<close>

definition ord_to_ymd :: "nat \<Rightarrow> nat \<times> nat \<times> nat" where
  "ord_to_ymd ordinal =
     (let n0 = ordinal - 1;
          n400 = n0 div 146097; na = n0 mod 146097;
          n100 = na div 36524; nb = na mod 36524;
          n4 = nb div 1461; nc = nb mod 1461;
          n1 = nc div 365; n = nc mod 365;
          y = n400 * 400 + 1 + n100 * 100 + n4 * 4 + n1
      in if n1 = 4 \<or> n100 = 4 then (y - 1, 12, 31)
         else (let m = (n + 50) div 32; preceding = days_before_month y m
               in if n < preceding
                  then (y, m - 1, n - (preceding - days_in_month y (m - 1)) + 1)
                  else (y, m, n - preceding + 1)))"

definition iso_week1_monday :: "nat \<Rightarrow> nat" where
  "iso_week1_monday y =
     (let first_day = toordinal \<lparr>year = y, month = 1, day = 1\<rparr>;
          first_weekday = (first_day + 6) mod 7;
          week1_monday = first_day - first_weekday
      in if 3 < first_weekday then week1_monday + 7 else week1_monday)"

text \<open>
  \<open>iso_to_ymd\<close>: week 53 exists in the years that start on a Thursday and in the leap
  years that start on a Wednesday. For the year 0000 the arithmetic of the library leaves
  the calendar (its day numbers are below 1) and the constructor rejects what comes out:
  the model rejects that year at once.
\<close>

definition iso_to_ymd :: "nat \<Rightarrow> nat \<Rightarrow> nat \<Rightarrow> (nat \<times> nat \<times> nat) option" where
  "iso_to_ymd iso_year iso_week iso_day =
     (let first_weekday = weekday \<lparr>year = iso_year, month = 1, day = 1\<rparr>
      in if iso_year = 0 then None
         else if (iso_week = 0 \<or> 53 \<le> iso_week) \<and>
                 \<not> (iso_week = 53 \<and>
                    (first_weekday = 3 \<or> (first_weekday = 2 \<and> is_leap iso_year)))
           then None
         else if iso_day = 0 \<or> 8 \<le> iso_day then None
         else Some (ord_to_ymd (iso_week1_monday iso_year + (iso_week - 1) * 7 + iso_day - 1)))"

definition parse_isoformat_date :: "string \<Rightarrow> (nat \<times> nat \<times> nat) option" where
  "parse_isoformat_date s =
     (case take_digits 4 s of
        None \<Rightarrow> None
      | Some (y, p0) \<Rightarrow>
          (let uses_separator = starts_with (CHR ''-'') p0;
               p1 = (if uses_separator then tl p0 else p0)
           in if starts_with (CHR ''W'') p1 then
                (case take_digits 2 (tl p1) of
                   None \<Rightarrow> None
                 | Some (iso_week, p2) \<Rightarrow>
                     if p2 \<noteq> [] then
                       (if uses_separator \<and> \<not> starts_with (CHR ''-'') p2 then None
                        else (case take_digits 1 (if uses_separator then tl p2 else p2) of
                                None \<Rightarrow> None
                              | Some (iso_day, _) \<Rightarrow> iso_to_ymd y iso_week iso_day))
                     else iso_to_ymd y iso_week 1)
              else
                (case take_digits 2 p1 of
                   None \<Rightarrow> None
                 | Some (m, p2) \<Rightarrow>
                     if uses_separator \<and> \<not> starts_with (CHR ''-'') p2 then None
                     else (case take_digits 2 (if uses_separator then tl p2 else p2) of
                             None \<Rightarrow> None
                           | Some (d, _) \<Rightarrow> Some (y, m, d)))))"

definition new_date :: "nat \<Rightarrow> nat \<Rightarrow> nat \<Rightarrow> date option" where
  "new_date y m d =
     (let r = \<lparr>year = y, month = m, day = d\<rparr> in if valid_date r then Some r else None)"

definition fromisoformat :: "string \<Rightarrow> error + date" where
  "fromisoformat s =
     (if length s = 7 \<or> length s = 8 \<or> length s = 10 then
        (case parse_isoformat_date s of
           None \<Rightarrow> Inl (ValueError (''Invalid isoformat string: '' @ s))
         | Some (y, m, d) \<Rightarrow>
             (case new_date y m d of
                None \<Rightarrow> Inl (ValueError (''Invalid isoformat string: '' @ s))
              | Some r \<Rightarrow> Inr r))
      else Inl (ValueError (''Invalid isoformat string: '' @ s)))"


text \<open>
  \<open>str.lower()\<close> on the bytes of the text: an ASCII capital letter becomes its small
  letter, every other byte stays. (Of the characters outside ASCII only U+212A and U+0130
  have a lower case with an ASCII letter in it, \<open>k\<close> and \<open>i\<close>; neither letter occurs in
  the words that \<open>_parse_bool\<close> compares with.)
\<close>

definition lower_char :: "char \<Rightarrow> char" where
  "lower_char c =
     (let n = (of_char c :: nat) in if 65 \<le> n \<and> n \<le> 90 then char_of (n + 32) else c)"

definition lower :: "string \<Rightarrow> string" where
  "lower s = map lower_char s"

text \<open>\<open>sorted\<close> on a list of texts (the order of the code points) and \<open>sep.join\<close>.\<close>

fun str_less :: "string \<Rightarrow> string \<Rightarrow> bool" where
  "str_less [] [] = False"
| "str_less [] (y # ys) = True"
| "str_less (x # xs) [] = False"
| "str_less (x # xs) (y # ys) =
     ((of_char x :: nat) < of_char y \<or> (x = y \<and> str_less xs ys))"

fun insert_sorted :: "string \<Rightarrow> string list \<Rightarrow> string list" where
  "insert_sorted x [] = [x]"
| "insert_sorted x (y # ys) = (if str_less x y then x # y # ys else y # insert_sorted x ys)"

definition sorted_strs :: "string list \<Rightarrow> string list" where
  "sorted_strs xs = foldl (\<lambda>acc x. insert_sorted x acc) [] xs"

fun join :: "string \<Rightarrow> string list \<Rightarrow> string" where
  "join sep [] = []"
| "join sep [x] = x"
| "join sep (x # y # ys) = x @ sep @ join sep (y # ys)"

section \<open>The helpers of the utils module\<close>

text \<open>
  The calendar table behind \<open>is_workday\<close>, \<open>is_holiday\<close>, \<open>is_in_lieu\<close> and the holiday
  names is outside this development: it is a parameter, the record \<open>calendar\<close>.
\<close>

record calendar =
  is_workday :: "date \<Rightarrow> bool"
  is_holiday :: "date \<Rightarrow> bool"
  is_in_lieu :: "date \<Rightarrow> bool"
  holiday_name :: "date \<Rightarrow> string option"

text \<open>
  Modelled from the spec: \<open>is_interbank_trading_day\<close> and \<open>is_a_share_trading_day\<close>
  (\<^verbatim>\<open>chinese_calendar/utils.py\<close> is not among the sources). The interbank market is open iff
  the day is a workday; the equity market is open iff the day is a workday and falls on
  Monday to Friday.
\<close>

definition is_interbank_trading_day :: "calendar \<Rightarrow> date \<Rightarrow> bool" where
  "is_interbank_trading_day cal d = is_workday cal d"

definition is_a_share_trading_day :: "calendar \<Rightarrow> date \<Rightarrow> bool" where
  "is_a_share_trading_day cal d = (is_workday cal d \<and> weekday d < 5)"

text \<open>
  Modelled from the spec: \<open>get_dates\<close> (\<^verbatim>\<open>chinese_calendar/utils.py\<close> is not among the
  sources), the spec's \<open>expand(start, end)\<close>: every date from start to end inclusive,
  ascending, as many as the days between the two plus one; it fails with \<open>InvalidRange\<close>
  if end is before start. \<open>next_day\<close> is the day after a date of the calendar.
\<close>

definition next_day :: "date \<Rightarrow> date" where
  "next_day d =
     (if day d < days_in_month (year d) (month d) then d\<lparr>day := day d + 1\<rparr>
      else if month d < 12 then d\<lparr>month := month d + 1, day := 1\<rparr>
      else \<lparr>year = year d + 1, month = 1, day = 1\<rparr>)"

fun dates_from :: "date \<Rightarrow> nat \<Rightarrow> date list" where
  "dates_from d 0 = []"
| "dates_from d (Suc n) = d # dates_from (next_day d) n"

definition get_dates :: "date \<Rightarrow> date \<Rightarrow> error + date list" where
  "get_dates start end' =
     (if date_less end' start then Inl InvalidRange
      else Inr (dates_from start (Suc (toordinal end' - toordinal start))))"

text \<open>
  Modelled from the spec: the range listings of \<^verbatim>\<open>chinese_calendar/utils.py\<close> (not among the
  sources), the spec's \<open>filter_range(start, end, predicate, include_weekends)\<close>: expand
  the range, keep the dates where the predicate holds, and drop Saturdays and Sundays too
  when \<open>include_weekends\<close> is false. \<open>get_holiday_detail\<close> pairs the holiday flag with
  the holiday's name.
\<close>

definition filter_range :: "date \<Rightarrow> date \<Rightarrow> (date \<Rightarrow> bool) \<Rightarrow> bool \<Rightarrow> error + date list" where
  "filter_range start end' predicate include_weekends =
     (case get_dates start end' of
        Inl e \<Rightarrow> Inl e
      | Inr ds \<Rightarrow> Inr (filter (\<lambda>d. predicate d \<and> (include_weekends \<or> weekday d < 5)) ds))"

definition get_holidays :: "calendar \<Rightarrow> date \<Rightarrow> date \<Rightarrow> bool \<Rightarrow> error + date list" where
  "get_holidays cal start end' include_weekends =
     filter_range start end' (is_holiday cal) include_weekends"

definition get_workdays :: "calendar \<Rightarrow> date \<Rightarrow> date \<Rightarrow> bool \<Rightarrow> error + date list" where
  "get_workdays cal start end' include_weekends =
     filter_range start end' (is_workday cal) include_weekends"

definition get_interbank_trading_days :: "calendar \<Rightarrow> date \<Rightarrow> date \<Rightarrow> error + date list" where
  "get_interbank_trading_days cal start end' =
     filter_range start end' (is_interbank_trading_day cal) True"

definition get_a_share_trading_days :: "calendar \<Rightarrow> date \<Rightarrow> date \<Rightarrow> error + date list" where
  "get_a_share_trading_days cal start end' =
     filter_range start end' (is_a_share_trading_day cal) True"

definition get_holiday_detail :: "calendar \<Rightarrow> date \<Rightarrow> bool \<times> string option" where
  "get_holiday_detail cal d = (is_holiday cal d, holiday_name cal d)"

section \<open>The request handlers of api.py\<close>

text \<open>
  The names of \<^verbatim>\<open>api.py\<close> are kept without their leading underscore. The query is
  what \<open>parse_qs\<close> returns, a dictionary from a parameter's name to the list of its
  values; a payload is the JSON value a handler returns.
\<close>

type_synonym query = "string \<rightharpoonup> string list"

datatype json = JNull | JBool bool | JStr string | JList "json list" | JDict "(string \<times> json) list"

text \<open>\<open>query.get(k, [None])[0]\<close>: the first value, \<open>None\<close> without the key.\<close>

definition first_value :: "query \<Rightarrow> string \<Rightarrow> error + string option" where
  "first_value q k =
     (case q k of None \<Rightarrow> Inr None | Some [] \<Rightarrow> Inl IndexError | Some (v # _) \<Rightarrow> Inr (Some v))"

text \<open>The truth value of an optional text: \<open>None\<close> and the empty text are false.\<close>

definition truthy :: "string option \<Rightarrow> bool" where
  "truthy v = (case v of None \<Rightarrow> False | Some s \<Rightarrow> s \<noteq> [])"

definition parse_date :: "string \<Rightarrow> error + date" where
  "parse_date v =
     (case fromisoformat v of
        Inr d \<Rightarrow> Inr d
      | Inl (ValueError _) \<Rightarrow>
          Inl (ValueError (''Invalid date format: '' @ v @ ''. Expected YYYY-MM-DD.''))
      | Inl e \<Rightarrow> Inl e)"

text \<open>\<open>[_parse_date(d) for d in dates]\<close>: the first element that fails raises.\<close>

fun parse_dates :: "string list \<Rightarrow> error + date list" where
  "parse_dates [] = Inr []"
| "parse_dates (d # ds) =
     (case parse_date d of
        Inl e \<Rightarrow> Inl e
      | Inr x \<Rightarrow> (case parse_dates ds of Inl e \<Rightarrow> Inl e | Inr xs \<Rightarrow> Inr (x # xs)))"

definition missing_dates_msg :: string where
  "missing_dates_msg =
     ''Provide either repeated '' @ [CHR 0x27] @ ''dates'' @ [CHR 0x27]
       @ '' parameters or both '' @ [CHR 0x27] @ ''start'' @ [CHR 0x27]
       @ '' and '' @ [CHR 0x27] @ ''end'' @ [CHR 0x27] @ ''.''"

definition range_order_msg :: string where
  "range_order_msg = ''end date must not be earlier than start date''"

definition collect_dates :: "string list option \<Rightarrow> string option \<Rightarrow> string option \<Rightarrow> error + date list" where
  "collect_dates dates start end' =
     (case dates of
        Some (d # ds) \<Rightarrow> parse_dates (d # ds)
      | _ \<Rightarrow>
        if truthy start \<and> truthy end' then
          (case parse_date (the start) of
             Inl e \<Rightarrow> Inl e
           | Inr start_date \<Rightarrow>
             (case parse_date (the end') of
                Inl e \<Rightarrow> Inl e
              | Inr end_date \<Rightarrow>
                  if date_less end_date start_date then Inl (ValueError range_order_msg)
                  else get_dates start_date end_date))
        else Inl (ValueError missing_dates_msg))"

text \<open>
  The call \<open>_collect_dates(query.get("dates"), query.get("start", [None])[0],
  query.get("end", [None])[0])\<close> that four handlers make, its arguments evaluated from
  left to right.
\<close>

definition collect_query :: "query \<Rightarrow> error + date list" where
  "collect_query q =
     (case first_value q ''start'' of
        Inl e \<Rightarrow> Inl e
      | Inr start \<Rightarrow>
        (case first_value q ''end'' of
           Inl e \<Rightarrow> Inl e
         | Inr end' \<Rightarrow> collect_dates (q ''dates'') start end'))"

definition health_handler :: "string \<Rightarrow> query \<Rightarrow> error + json" where
  "health_handler version q = Inr (JDict [(''status'', JStr ''ok''), (''version'', JStr version)])"

definition flag_handler :: "(date \<Rightarrow> bool) \<Rightarrow> string \<Rightarrow> query \<Rightarrow> error + json" where
  "flag_handler func key q =
     (case collect_query q of
        Inl e \<Rightarrow> Inl e
      | Inr dates \<Rightarrow>
          Inr (JDict [(''results'',
            JList (map (\<lambda>d. JDict [(''date'', JStr (isoformat d)), (key, JBool (func d))]) dates))]))"

definition interbank_handler :: "calendar \<Rightarrow> query \<Rightarrow> error + json" where
  "interbank_handler cal q =
     (case collect_query q of
        Inl e \<Rightarrow> Inl e
      | Inr dates \<Rightarrow>
          Inr (JDict [(''results'',
            JList (map (\<lambda>d. JDict [(''date'', JStr (isoformat d)),
              (''is_interbank_trading_day'', JBool (is_interbank_trading_day cal d))]) dates))]))"

definition a_share_handler :: "calendar \<Rightarrow> query \<Rightarrow> error + json" where
  "a_share_handler cal q =
     (case collect_query q of
        Inl e \<Rightarrow> Inl e
      | Inr dates \<Rightarrow>
          Inr (JDict [(''results'',
            JList (map (\<lambda>d. JDict [(''date'', JStr (isoformat d)),
              (''is_a_share_trading_day'', JBool (is_a_share_trading_day cal d))]) dates))]))"

definition holiday_detail_handler :: "calendar \<Rightarrow> query \<Rightarrow> error + json" where
  "holiday_detail_handler cal q =
     (case collect_query q of
        Inl e \<Rightarrow> Inl e
      | Inr dates \<Rightarrow>
          Inr (JDict [(''results'',
            JList (map (\<lambda>d. case get_holiday_detail cal d of (is_holiday_flag, name) \<Rightarrow>
              JDict [(''date'', JStr (isoformat d)), (''is_holiday'', JBool is_holiday_flag),
                (''holiday_name'', (case name of None \<Rightarrow> JNull | Some n \<Rightarrow> JStr n))]) dates))]))"

definition TYPE_CHECKERS :: "calendar \<Rightarrow> (string \<times> (date \<Rightarrow> bool)) list" where
  "TYPE_CHECKERS cal =
     [(''holiday'', is_holiday cal),
      (''workday'', is_workday cal),
      (''in-lieu'', is_in_lieu cal),
      (''interbank-trading-day'', is_interbank_trading_day cal),
      (''a-share-trading-day'', is_a_share_trading_day cal)]"

definition date_required_msg :: string where
  "date_required_msg =
     [CHR 0x27] @ ''date'' @ [CHR 0x27] @ '' query parameter is required for this endpoint.''"

definition type_required_msg :: string where
  "type_required_msg =
     [CHR 0x27] @ ''type'' @ [CHR 0x27] @ '' query parameter is required for this endpoint.''"

definition unknown_type_msg :: "calendar \<Rightarrow> string \<Rightarrow> string" where
  "unknown_type_msg cal type_value =
     ''Unknown type '' @ [CHR 0x27] @ type_value @ [CHR 0x27] @ ''. Supported types: ''
       @ join '', '' (sorted_strs (map fst (TYPE_CHECKERS cal))) @ ''.''"

definition type_check_handler :: "calendar \<Rightarrow> query \<Rightarrow> error + json" where
  "type_check_handler cal q =
     (case first_value q ''date'' of
        Inl e \<Rightarrow> Inl e
      | Inr date_value \<Rightarrow>
        if \<not> truthy date_value then Inl (ValueError date_required_msg)
        else
          (case first_value q ''type'' of
             Inl e \<Rightarrow> Inl e
           | Inr type_value \<Rightarrow>
             if \<not> truthy type_value then Inl (ValueError type_required_msg)
             else
               (case map_of (TYPE_CHECKERS cal) (the type_value) of
                  None \<Rightarrow> Inl (ValueError (unknown_type_msg cal (the type_value)))
                | Some checker \<Rightarrow>
                  (case parse_date (the date_value) of
                     Inl e \<Rightarrow> Inl e
                   | Inr d \<Rightarrow>
                       Inr (JDict [(''date'', JStr (isoformat d)),
                                   (''type'', JStr (the type_value)),
                                   (''result'', JBool (checker d))])))))"

definition parse_bool :: "string option \<Rightarrow> bool \<Rightarrow> error + bool" where
  "parse_bool v default' =
     (case v of
        None \<Rightarrow> Inr default'
      | Some s \<Rightarrow>
          (let lowered = lower s in
           if lowered \<in> set [''true'', ''1'', ''yes'', ''on''] then Inr True
           else if lowered \<in> set [''false'', ''0'', ''no'', ''off''] then Inr False
           else Inl (ValueError ''Boolean parameters accept true/false/1/0/yes/no/on/off'')))"

definition range_required_msg :: string where
  "range_required_msg =
     [CHR 0x27] @ ''start'' @ [CHR 0x27] @ '' and '' @ [CHR 0x27] @ ''end'' @ [CHR 0x27]
       @ '' query parameters are required for this endpoint.''"

definition range_required :: "query \<Rightarrow> error + date \<times> date" where
  "range_required q =
     (case first_value q ''start'' of
        Inl e \<Rightarrow> Inl e
      | Inr start \<Rightarrow>
        (case first_value q ''end'' of
           Inl e \<Rightarrow> Inl e
         | Inr end' \<Rightarrow>
           if \<not> truthy start \<or> \<not> truthy end' then Inl (ValueError range_required_msg)
           else
             (case parse_date (the start) of
                Inl e \<Rightarrow> Inl e
              | Inr start_date \<Rightarrow>
                (case parse_date (the end') of
                   Inl e \<Rightarrow> Inl e
                 | Inr end_date \<Rightarrow>
                     if date_less end_date start_date then Inl (ValueError range_order_msg)
                     else Inr (start_date, end_date)))))"

text \<open>
  \<open>func\<close> is called with or without its third argument: \<open>func start end None\<close> is the
  call \<open>func(start, end)\<close>, and \<open>func start end (Some b)\<close> the call
  \<open>func(start, end, b)\<close>.
\<close>

definition range_list_handler ::
  "(date \<Rightarrow> date \<Rightarrow> bool option \<Rightarrow> error + date list) \<Rightarrow> string \<Rightarrow> bool \<Rightarrow> query \<Rightarrow> error + json" where
  "range_list_handler func key include_weekends_supported q =
     (case range_required q of
        Inl e \<Rightarrow> Inl e
      | Inr (start, end') \<Rightarrow>
        (case first_value q ''include_weekends'' of
           Inl e \<Rightarrow> Inl e
         | Inr include_weekends_param \<Rightarrow>
           (case (if include_weekends_supported then parse_bool include_weekends_param True
                  else Inr True) of
              Inl e \<Rightarrow> Inl e
            | Inr include_weekends \<Rightarrow>
              (case (if include_weekends_supported then func start end' (Some include_weekends)
                     else func start end' None) of
                 Inl e \<Rightarrow> Inl e
               | Inr days \<Rightarrow> Inr (JDict [(key, JList (map (\<lambda>d. JStr (isoformat d)) days))])))))"

text \<open>
  The route table. \<open>get_holidays\<close> and \<open>get_workdays\<close> take \<open>include_weekends\<close> with the
  default true; the two listings of trading days take the range only. \<open>version\<close> is the
  package's \<open>__version__\<close>, a parameter.
\<close>

definition routes :: "string \<Rightarrow> calendar \<Rightarrow> (string \<times> (query \<Rightarrow> error + json)) list" where
  "routes version cal =
     [(''/api/health'', health_handler version),
      (''/api/workdays'', flag_handler (is_workday cal) ''is_workday''),
      (''/api/holidays'', flag_handler (is_holiday cal) ''is_holiday''),
      (''/api/in-lieu'', flag_handler (is_in_lieu cal) ''is_in_lieu''),
      (''/api/holiday/detail'', holiday_detail_handler cal),
      (''/api/date/type'', type_check_handler cal),
      (''/api/holidays/range'',
         range_list_handler (\<lambda>s e w. get_holidays cal s e (case w of None \<Rightarrow> True | Some b \<Rightarrow> b))
           ''holidays'' True),
      (''/api/workdays/range'',
         range_list_handler (\<lambda>s e w. get_workdays cal s e (case w of None \<Rightarrow> True | Some b \<Rightarrow> b))
           ''workdays'' True),
      (''/api/interbank/trading-days'', interbank_handler cal),
      (''/api/a-share/trading-days'', a_share_handler cal),
      (''/api/interbank/trading-days/list'',
         range_list_handler (\<lambda>s e w. get_interbank_trading_days cal s e)
           ''interbank_trading_days'' False),
      (''/api/a-share/trading-days/list'',
         range_list_handler (\<lambda>s e w. get_a_share_trading_days cal s e)
           ''a_share_trading_days'' False)]"

text \<open>
  \<open>do_GET\<close>, on the path and the query that \<open>urlparse\<close> and \<open>parse_qs\<close> give: an unknown
  path is a 404, a \<open>ValueError\<close> of the handler a 400 with its message as the detail, a
  payload a 200; any other exception is not caught.
\<close>

datatype response = Response nat json

definition do_GET :: "string \<Rightarrow> calendar \<Rightarrow> string \<Rightarrow> query \<Rightarrow> error + response" where
  "do_GET version cal path q =
     (case map_of (routes version cal) path of
        None \<Rightarrow> Inr (Response 404 (JDict [(''detail'', JStr ''Not Found'')]))
      | Some handler \<Rightarrow>
        (case handler q of
           Inl (ValueError m) \<Rightarrow> Inr (Response 400 (JDict [(''detail'', JStr m)]))
         | Inl e \<Rightarrow> Inl e
         | Inr payload \<Rightarrow> Inr (Response 200 payload)))"

text \<open>
  The calendar facts that the tests of the repository rely on, as a calendar to evaluate
  the handlers with: 2018-02-11 (a Sunday), 2018-02-12 and 2018-05-10 are workdays,
  every other day is a holiday, and 2018-02-16 is named.
\<close>

definition test_calendar :: calendar where
  "test_calendar =
     \<lparr>is_workday = (\<lambda>d. d \<in> set [\<lparr>year = 2018, month = 2, day = 11\<rparr>,
          \<lparr>year = 2018, month = 2, day = 12\<rparr>, \<lparr>year = 2018, month = 5, day = 10\<rparr>]),
      is_holiday = (\<lambda>d. d \<notin> set [\<lparr>year = 2018, month = 2, day = 11\<rparr>,
          \<lparr>year = 2018, month = 2, day = 12\<rparr>, \<lparr>year = 2018, month = 5, day = 10\<rparr>]),
      is_in_lieu = (\<lambda>d. False),
      holiday_name = (\<lambda>d. if d = \<lparr>year = 2018, month = 2, day = 16\<rparr>
          then Some ''Spring Festival'' else None)\<rparr>"

text \<open>
  A query of the test suite's request \<open>/api/date/type?date=2018-02-16&type=unknown\<close> with
  the date left out.
\<close>

definition type_only_query :: query where
  "type_only_query = [''type'' \<mapsto> [''unknown'']]"

section \<open>Evaluation at the dates of the test suite\<close>

lemma parse_date_20180210:
  "parse_date ''2018-02-10'' = Inr \<lparr>year = 2018, month = 2, day = 10\<rparr>"
  by (simp add: parse_date_def fromisoformat_def parse_isoformat_date_def take_digits_def
      starts_with_def digit_val_def new_date_def valid_date_def days_in_month_def is_leap_def)

lemma parse_date_20180211:
  "parse_date ''2018-02-11'' = Inr \<lparr>year = 2018, month = 2, day = 11\<rparr>"
  by (simp add: parse_date_def fromisoformat_def parse_isoformat_date_def take_digits_def
      starts_with_def digit_val_def new_date_def valid_date_def days_in_month_def is_leap_def)

lemma parse_date_20180212:
  "parse_date ''2018-02-12'' = Inr \<lparr>year = 2018, month = 2, day = 12\<rparr>"
  by (simp add: parse_date_def fromisoformat_def parse_isoformat_date_def take_digits_def
      starts_with_def digit_val_def new_date_def valid_date_def days_in_month_def is_leap_def)

lemma parse_date_week_form:
  "parse_date ''2018-W06-7'' = Inr \<lparr>year = 2018, month = 2, day = 11\<rparr>"
  by (simp add: parse_date_def fromisoformat_def parse_isoformat_date_def take_digits_def
      starts_with_def digit_val_def new_date_def valid_date_def days_in_month_def is_leap_def
      iso_to_ymd_def iso_week1_monday_def ord_to_ymd_def weekday_def toordinal_def
      days_before_year_def days_before_month_def Let_def)

lemma weekday_20180211: "weekday \<lparr>year = 2018, month = 2, day = 11\<rparr> = 6"
  by (simp add: weekday_def toordinal_def days_before_year_def days_before_month_def is_leap_def)

lemma lower_examples:
  "lower ''YES'' = ''yes''" "lower ''Off'' = ''off''" "lower ''banana'' = ''banana''"
  by code_simp+

section \<open>Parsing a date\<close>


lemma digit_val_SomeD: "digit_val c = Some n \<Longrightarrow> n < 10 \<and> c = digit_char n"
  by (auto simp: digit_val_def digit_char_def Let_def split: if_splits)

















lemma digit_chars_all: "\<forall>n \<in> set [0..<10]. digit_char n \<in> set ''0123456789''"
  by code_simp

lemma digit_char_in_digits: "n < 10 \<Longrightarrow> digit_char n \<in> set ''0123456789''"
  using digit_chars_all by simp

lemma digit_val_in_digits: "digit_val c = Some n \<Longrightarrow> c \<in> set ''0123456789''"
  using digit_val_SomeD[of c n] digit_char_in_digits[of n] by simp






lemma digit_not_hyphen: "digit_val c = Some n \<Longrightarrow> c \<noteq> CHR ''-''"
  by (auto simp: digit_val_def)















section \<open>Expanding a range\<close>






















section \<open>Trading-day rules\<close>

text \<open>
  C1. An A-share trading day is exactly a workday that falls on Monday to Friday (the
  weekdays 0 to 4). 2018-02-11 is a Sunday: where the calendar makes it a workday,
  \<open>is_workday\<close> is true of it and \<open>is_a_share_trading_day\<close> is false.
\<close>

theorem a_share_trading_day_iff:
  "(is_a_share_trading_day cal d \<longleftrightarrow> is_workday cal d \<and> weekday d \<in> {0, 1, 2, 3, 4})
   \<and> weekday \<lparr>year = 2018, month = 2, day = 11\<rparr> = 6
   \<and> (is_workday cal \<lparr>year = 2018, month = 2, day = 11\<rparr> \<longrightarrow>
        \<not> is_a_share_trading_day cal \<lparr>year = 2018, month = 2, day = 11\<rparr>)"
proof -
  have "weekday d < 5 \<longleftrightarrow> weekday d \<in> {0, 1, 2, 3, 4}" by auto
  then show ?thesis by (simp add: is_a_share_trading_day_def weekday_20180211)
qed

theorem a_share_trading_day_iff_witness:
  "is_workday test_calendar \<lparr>year = 2018, month = 2, day = 11\<rparr>
   \<and> \<not> is_a_share_trading_day test_calendar \<lparr>year = 2018, month = 2, day = 11\<rparr>"
  using a_share_trading_day_iff [of test_calendar "\<lparr>year = 2018, month = 2, day = 11\<rparr>"]
  by (simp add: test_calendar_def)

text \<open>
  C2. On every date, whatever its weekday, \<open>is_interbank_trading_day\<close> returns what
  \<open>is_workday\<close> returns.
\<close>

theorem interbank_trading_day_is_workday:
  "is_interbank_trading_day cal d = is_workday cal d"
  by (simp add: is_interbank_trading_day_def)

section \<open>The explicit list of dates\<close>

lemma parse_dates_Inr:
  "parse_dates xs = Inr ys \<Longrightarrow> list_all2 (\<lambda>x y. parse_date x = Inr y) xs ys"
  by (induction xs arbitrary: ys) (auto split: sum.splits)

lemma parse_dates_Inl:
  "parse_dates xs = Inl e \<Longrightarrow>
     \<exists>pre x post. xs = pre @ x # post \<and> parse_date x = Inl e \<and>
        (\<forall>p\<in>set pre. \<exists>y. parse_date p = Inr y)"
proof (induction xs)
  case Nil
  then show ?case by simp
next
  case (Cons a xs)
  show ?case
  proof (cases "parse_date a")
    case (Inl e')
    with Cons.prems have "parse_date a = Inl e" by simp
    then have "a # xs = [] @ a # xs \<and> parse_date a = Inl e
        \<and> (\<forall>p\<in>set []. \<exists>y. parse_date p = Inr y)"
      by simp
    then show ?thesis by blast
  next
    case (Inr y)
    with Cons.prems have "parse_dates xs = Inl e" by (simp split: sum.splits)
    from Cons.IH[OF this] obtain pre x post where
      h: "xs = pre @ x # post" "parse_date x = Inl e" "\<forall>p\<in>set pre. \<exists>y. parse_date p = Inr y"
      by blast
    with Inr have "a # xs = (a # pre) @ x # post \<and> parse_date x = Inl e \<and>
       (\<forall>p\<in>set (a # pre). \<exists>y. parse_date p = Inr y)" by simp
    then show ?thesis by blast
  qed
qed

text \<open>
  C4. Given a non-empty explicit list, \<open>_collect_dates\<close> returns the result of parsing
  the list, whatever the start and end texts are: the dates of the elements, one for one
  and in the order of the list (so duplicates stay), or the error of the first element
  that does not parse.
\<close>

theorem collect_dates_list_precedence:
  "dates \<noteq> [] \<Longrightarrow>
     collect_dates (Some dates) start end' = parse_dates dates
     \<and> (\<forall>ys. parse_dates dates = Inr ys \<longrightarrow> list_all2 (\<lambda>x y. parse_date x = Inr y) dates ys)
     \<and> (\<forall>e. parse_dates dates = Inl e \<longrightarrow>
          (\<exists>pre x post. dates = pre @ x # post \<and> parse_date x = Inl e \<and>
             (\<forall>p\<in>set pre. \<exists>y. parse_date p = Inr y)))"
  using parse_dates_Inr parse_dates_Inl
  by (cases dates) (auto simp: collect_dates_def)

theorem collect_dates_list_precedence_witness:
  "[''2018-02-11'', ''2018-02-10'', ''2018-02-11''] \<noteq> []
   \<and> collect_dates (Some [''2018-02-11'', ''2018-02-10'', ''2018-02-11''])
        (Some ''2018-02-12'') (Some ''2018-02-10'')
      = Inr [\<lparr>year = 2018, month = 2, day = 11\<rparr>, \<lparr>year = 2018, month = 2, day = 10\<rparr>,
             \<lparr>year = 2018, month = 2, day = 11\<rparr>]"
  using collect_dates_list_precedence [of "[''2018-02-11'', ''2018-02-10'', ''2018-02-11'']"
      "Some ''2018-02-12''" "Some ''2018-02-10''"]
  by (simp add: parse_date_20180211 parse_date_20180210)

section \<open>Reversed ranges\<close>

lemma routes_lookup:
  "map_of (routes version cal) ''/api/workdays'' = Some (flag_handler (is_workday cal) ''is_workday'')"
  "map_of (routes version cal) ''/api/holidays'' = Some (flag_handler (is_holiday cal) ''is_holiday'')"
  "map_of (routes version cal) ''/api/in-lieu'' = Some (flag_handler (is_in_lieu cal) ''is_in_lieu'')"
  "map_of (routes version cal) ''/api/holiday/detail'' = Some (holiday_detail_handler cal)"
  "map_of (routes version cal) ''/api/date/type'' = Some (type_check_handler cal)"
  "map_of (routes version cal) ''/api/holidays/range''
     = Some (range_list_handler
         (\<lambda>s e w. get_holidays cal s e (case w of None \<Rightarrow> True | Some b \<Rightarrow> b)) ''holidays'' True)"
  "map_of (routes version cal) ''/api/workdays/range''
     = Some (range_list_handler
         (\<lambda>s e w. get_workdays cal s e (case w of None \<Rightarrow> True | Some b \<Rightarrow> b)) ''workdays'' True)"
  "map_of (routes version cal) ''/api/interbank/trading-days'' = Some (interbank_handler cal)"
  "map_of (routes version cal) ''/api/a-share/trading-days'' = Some (a_share_handler cal)"
  "map_of (routes version cal) ''/api/interbank/trading-days/list''
     = Some (range_list_handler (\<lambda>s e w. get_interbank_trading_days cal s e)
         ''interbank_trading_days'' False)"
  "map_of (routes version cal) ''/api/a-share/trading-days/list''
     = Some (range_list_handler (\<lambda>s e w. get_a_share_trading_days cal s e)
         ''a_share_trading_days'' False)"
  by (simp_all add: routes_def)


lemma parse_date_nonempty: "parse_date s = Inr d \<Longrightarrow> s \<noteq> []"
  by (auto simp: parse_date_def fromisoformat_def)

lemma do_GET_ValueError:
  "map_of (routes version cal) path = Some h \<Longrightarrow> h q = Inl (ValueError m) \<Longrightarrow>
     do_GET version cal path q = Inr (Response 400 (JDict [(''detail'', JStr m)]))"
  by (simp add: do_GET_def)

lemma collect_dates_reversed:
  assumes "parse_date s = Inr start_date" "parse_date e = Inr end_date"
    "date_less end_date start_date" "dates = None \<or> dates = Some []"
  shows "collect_dates dates (Some s) (Some e) = Inl (ValueError range_order_msg)"
  using assms parse_date_nonempty[OF assms(1)] parse_date_nonempty[OF assms(2)]
  by (auto simp: collect_dates_def truthy_def)

lemma range_required_reversed:
  assumes "parse_date s = Inr start_date" "parse_date e = Inr end_date"
    "date_less end_date start_date" "q ''start'' = Some (s # ss)" "q ''end'' = Some (e # es)"
  shows "range_required q = Inl (ValueError range_order_msg)"
  using assms parse_date_nonempty[OF assms(1)] parse_date_nonempty[OF assms(2)]
  by (simp add: range_required_def first_value_def truthy_def)

lemma collect_query_reversed:
  assumes "parse_date s = Inr start_date" "parse_date e = Inr end_date"
    "date_less end_date start_date" "q ''start'' = Some (s # ss)" "q ''end'' = Some (e # es)"
    "q ''dates'' = None \<or> q ''dates'' = Some []"
  shows "collect_query q = Inl (ValueError range_order_msg)"
  using assms(4,5) collect_dates_reversed[OF assms(1,2,3,6)]
  by (simp add: collect_query_def first_value_def)

lemma collect_handlers_error:
  assumes "collect_query q = Inl e"
  shows "flag_handler func key q = Inl e" "holiday_detail_handler cal q = Inl e"
    "interbank_handler cal q = Inl e" "a_share_handler cal q = Inl e"
  using assms
  by (simp_all add: flag_handler_def holiday_detail_handler_def interbank_handler_def
      a_share_handler_def)

lemma range_list_handler_error:
  "range_required q = Inl e \<Longrightarrow> range_list_handler func key supported q = Inl e"
  by (simp add: range_list_handler_def)

text \<open>
  C5. A request that consumes its range, with start and end texts that parse and an end
  date before the start date, is rejected with the message of the reversed range:
  \<open>_collect_dates\<close> without an explicit list and \<open>_range_required\<close> raise it, a
  range listing raises it whatever its listing function is (the function is not reached),
  and \<open>do_GET\<close> answers 400 with that detail on the four listing endpoints and, without
  an explicit list, on the six endpoints that resolve a list or a range.
\<close>

theorem reversed_range_rejected:
  assumes "parse_date s = Inr start_date" and "parse_date e = Inr end_date"
    and "date_less end_date start_date"
    and "q ''start'' = Some (s # ss)" and "q ''end'' = Some (e # es)"
  shows "(dates = None \<or> dates = Some [] \<longrightarrow>
            collect_dates dates (Some s) (Some e) = Inl (ValueError range_order_msg))
       \<and> range_required q = Inl (ValueError range_order_msg)
       \<and> range_list_handler func key supported q = Inl (ValueError range_order_msg)
       \<and> (path \<in> set [''/api/holidays/range'', ''/api/workdays/range'',
              ''/api/interbank/trading-days/list'', ''/api/a-share/trading-days/list''] \<longrightarrow>
            do_GET version cal path q
              = Inr (Response 400 (JDict [(''detail'', JStr range_order_msg)])))
       \<and> ((q ''dates'' = None \<or> q ''dates'' = Some []) \<and>
           path \<in> set [''/api/workdays'', ''/api/holidays'', ''/api/in-lieu'',
              ''/api/holiday/detail'', ''/api/interbank/trading-days'',
              ''/api/a-share/trading-days''] \<longrightarrow>
            do_GET version cal path q
              = Inr (Response 400 (JDict [(''detail'', JStr range_order_msg)])))"
proof (intro conjI impI)
  show rr: "range_required q = Inl (ValueError range_order_msg)"
    by (rule range_required_reversed[OF assms])
  show rl: "range_list_handler f k b q = Inl (ValueError range_order_msg)" for f k b
    by (rule range_list_handler_error[OF rr])
  show "collect_dates dates (Some s) (Some e) = Inl (ValueError range_order_msg)"
    if "dates = None \<or> dates = Some []"
    by (rule collect_dates_reversed[OF assms(1,2,3) that])
  show "do_GET version cal path q
              = Inr (Response 400 (JDict [(''detail'', JStr range_order_msg)]))"
    if "path \<in> set [''/api/holidays/range'', ''/api/workdays/range'',
              ''/api/interbank/trading-days/list'', ''/api/a-share/trading-days/list'']"
  proof -
    from that have "path = ''/api/holidays/range'' \<or> path = ''/api/workdays/range''
      \<or> path = ''/api/interbank/trading-days/list'' \<or> path = ''/api/a-share/trading-days/list''"
      by simp
    then show ?thesis
    proof (elim disjE)
      assume p: "path = ''/api/holidays/range''"
      show ?thesis unfolding p by (rule do_GET_ValueError[OF routes_lookup(6) rl])
    next
      assume p: "path = ''/api/workdays/range''"
      show ?thesis unfolding p by (rule do_GET_ValueError[OF routes_lookup(7) rl])
    next
      assume p: "path = ''/api/interbank/trading-days/list''"
      show ?thesis unfolding p by (rule do_GET_ValueError[OF routes_lookup(10) rl])
    next
      assume p: "path = ''/api/a-share/trading-days/list''"
      show ?thesis unfolding p by (rule do_GET_ValueError[OF routes_lookup(11) rl])
    qed
  qed
  show "do_GET version cal path q
              = Inr (Response 400 (JDict [(''detail'', JStr range_order_msg)]))"
    if a: "(q ''dates'' = None \<or> q ''dates'' = Some []) \<and>
           path \<in> set [''/api/workdays'', ''/api/holidays'', ''/api/in-lieu'',
              ''/api/holiday/detail'', ''/api/interbank/trading-days'',
              ''/api/a-share/trading-days'']"
  proof -
    from a have d: "q ''dates'' = None \<or> q ''dates'' = Some []" by (rule conjunct1)
    have cq: "collect_query q = Inl (ValueError range_order_msg)"
      by (rule collect_query_reversed[OF assms d])
    note h = collect_handlers_error[OF cq]
    from a have "path = ''/api/workdays'' \<or> path = ''/api/holidays'' \<or> path = ''/api/in-lieu''
      \<or> path = ''/api/holiday/detail'' \<or> path = ''/api/interbank/trading-days''
      \<or> path = ''/api/a-share/trading-days''"
      by simp
    then show ?thesis
    proof (elim disjE)
      assume p: "path = ''/api/workdays''"
      show ?thesis unfolding p by (rule do_GET_ValueError[OF routes_lookup(1) h(1)])
    next
      assume p: "path = ''/api/holidays''"
      show ?thesis unfolding p by (rule do_GET_ValueError[OF routes_lookup(2) h(1)])
    next
      assume p: "path = ''/api/in-lieu''"
      show ?thesis unfolding p by (rule do_GET_ValueError[OF routes_lookup(3) h(1)])
    next
      assume p: "path = ''/api/holiday/detail''"
      show ?thesis unfolding p by (rule do_GET_ValueError[OF routes_lookup(4) h(2)])
    next
      assume p: "path = ''/api/interbank/trading-days''"
      show ?thesis unfolding p by (rule do_GET_ValueError[OF routes_lookup(8) h(3)])
    next
      assume p: "path = ''/api/a-share/trading-days''"
      show ?thesis unfolding p by (rule do_GET_ValueError[OF routes_lookup(9) h(4)])
    qed
  qed
qed


theorem reversed_range_rejected_witness:
  "do_GET ''1.0'' test_calendar ''/api/workdays''
       [''start'' \<mapsto> [''2018-02-12''], ''end'' \<mapsto> [''2018-02-10'']]
     = Inr (Response 400
         (JDict [(''detail'', JStr ''end date must not be earlier than start date'')]))
   \<and> do_GET ''1.0'' test_calendar ''/api/workdays/range''
       [''start'' \<mapsto> [''2018-02-12''], ''end'' \<mapsto> [''2018-02-10'']]
     = Inr (Response 400
         (JDict [(''detail'', JStr ''end date must not be earlier than start date'')]))"
proof -
  define q :: query where "q = [''start'' \<mapsto> [''2018-02-12''], ''end'' \<mapsto> [''2018-02-10'']]"
  have c: "date_less \<lparr>year = 2018, month = 2, day = 10\<rparr> \<lparr>year = 2018, month = 2, day = 12\<rparr>"
    by (simp add: date_less_def)
  have d: "q ''start'' = Some (''2018-02-12'' # [])" by (simp add: q_def)
  have e: "q ''end'' = Some (''2018-02-10'' # [])" by (simp add: q_def)
  have f: "q ''dates'' = None" by (simp add: q_def)
  note t = reversed_range_rejected[OF parse_date_20180212 parse_date_20180210 c d e]
  have A: "do_GET ''1.0'' test_calendar ''/api/workdays'' q
      = Inr (Response 400 (JDict [(''detail'', JStr range_order_msg)]))"
    using t[where path = "''/api/workdays''" and version = "''1.0''" and cal = test_calendar
      and dates = None and func = "\<lambda>s e w. Inr []" and key = "''k''" and supported = False] f
    by simp
  have B: "do_GET ''1.0'' test_calendar ''/api/workdays/range'' q
      = Inr (Response 400 (JDict [(''detail'', JStr range_order_msg)]))"
    using t[where path = "''/api/workdays/range''" and version = "''1.0''" and cal = test_calendar
      and dates = None and func = "\<lambda>s e w. Inr []" and key = "''k''" and supported = False]
    by simp
  from A B show ?thesis unfolding q_def range_order_msg_def by (rule conjI)
qed

section \<open>The type selector\<close>

lemma sorted_type_names:
  "sorted_strs [''holiday'', ''workday'', ''in-lieu'', ''interbank-trading-day'',
       ''a-share-trading-day'']
     = [''a-share-trading-day'', ''holiday'', ''in-lieu'', ''interbank-trading-day'', ''workday'']"
  by code_simp

lemma supported_types:
  "join '', '' (sorted_strs (map fst (TYPE_CHECKERS cal)))
     = ''a-share-trading-day, holiday, in-lieu, interbank-trading-day, workday''"
  by (simp add: TYPE_CHECKERS_def sorted_type_names)

lemma type_checkers_None:
  "map_of (TYPE_CHECKERS cal) tv = None \<longleftrightarrow>
     tv \<notin> set [''holiday'', ''workday'', ''in-lieu'', ''interbank-trading-day'',
        ''a-share-trading-day'']"
  by (simp add: map_of_eq_None_iff TYPE_CHECKERS_def)

lemma type_check_handler_unknown:
  assumes "q ''date'' = Some (dv # dvs)" "dv \<noteq> []" "q ''type'' = Some (tv # tvs)" "tv \<noteq> []"
    "map_of (TYPE_CHECKERS cal) tv = None"
  shows "type_check_handler cal q = Inl (ValueError (unknown_type_msg cal tv))"
  using assms by (simp add: type_check_handler_def first_value_def truthy_def)

lemma type_check_handler_no_type:
  assumes "q ''date'' = Some (dv # dvs)" "dv \<noteq> []" "q ''type'' = None \<or> q ''type'' = Some ([] # tvs)"
  shows "type_check_handler cal q = Inl (ValueError type_required_msg)"
  using assms by (auto simp: type_check_handler_def first_value_def truthy_def)

lemma type_check_handler_known:
  assumes "q ''date'' = Some (dv # dvs)" "dv \<noteq> []" "q ''type'' = Some (tv # tvs)"
    "map_of (TYPE_CHECKERS cal) tv = Some checker"
  shows "type_check_handler cal q =
     (case parse_date dv of Inl e \<Rightarrow> Inl e
      | Inr d \<Rightarrow> Inr (JDict [(''date'', JStr (isoformat d)), (''type'', JStr tv),
                               (''result'', JBool (checker d))]))"
proof -
  have "tv \<noteq> []" using assms(4) by (auto simp: TYPE_CHECKERS_def split: if_splits)
  then show ?thesis
    using assms
    by (simp add: type_check_handler_def first_value_def truthy_def split: sum.splits)
qed

text \<open>
  C7, as stated, fails on a request without a date: the handler checks the date first, so
  an unknown type yields the 400 of the missing date, whose detail lists no type name.
\<close>

theorem unknown_type_without_date_counterexample:
  "do_GET ''1.0'' test_calendar ''/api/date/type'' type_only_query
     = Inr (Response 400 (JDict [(''detail'', JStr date_required_msg)]))
   \<and> do_GET ''1.0'' test_calendar ''/api/date/type'' type_only_query
     \<noteq> Inr (Response 400
          (JDict [(''detail'', JStr (unknown_type_msg test_calendar ''unknown''))]))"
proof -
  have h: "type_check_handler test_calendar type_only_query = Inl (ValueError date_required_msg)"
    by (simp add: type_check_handler_def first_value_def truthy_def type_only_query_def)
  have d: "date_required_msg \<noteq> unknown_type_msg test_calendar ''unknown''"
    by (simp add: date_required_msg_def unknown_type_msg_def)
  from do_GET_ValueError[OF routes_lookup(5) h] d show ?thesis by simp
qed

text \<open>
  C7, amended. On \<open>/api/date/type\<close> with a date that is present and not empty: a type
  that is not empty and is none of the five names, compared as they are written, yields
  a 400 whose detail names the type and lists the five names in sorted order; an absent
  or empty type yields the 400 of the missing type; one of the five names selects its
  checker, and the result is that of parsing the date and applying the checker.
\<close>

theorem type_selector_resolution:
  assumes "q ''date'' = Some (dv # dvs)" and "dv \<noteq> []"
  shows "(q ''type'' = Some (tv # tvs) \<and> tv \<noteq> [] \<and>
          tv \<notin> set [''holiday'', ''workday'', ''in-lieu'', ''interbank-trading-day'',
                      ''a-share-trading-day''] \<longrightarrow>
          do_GET version cal ''/api/date/type'' q
            = Inr (Response 400 (JDict [(''detail'',
                JStr (''Unknown type '' @ [CHR 0x27] @ tv @ [CHR 0x27] @ ''. Supported types: ''
                  @ ''a-share-trading-day, holiday, in-lieu, interbank-trading-day, workday''
                  @ ''.''))])))
       \<and> (q ''type'' = None \<or> q ''type'' = Some ([] # tvs) \<longrightarrow>
          do_GET version cal ''/api/date/type'' q
            = Inr (Response 400 (JDict [(''detail'', JStr type_required_msg)])))
       \<and> (q ''type'' = Some (tv # tvs) \<and>
          tv \<in> set [''holiday'', ''workday'', ''in-lieu'', ''interbank-trading-day'',
                      ''a-share-trading-day''] \<longrightarrow>
          (\<exists>checker. map_of (TYPE_CHECKERS cal) tv = Some checker \<and>
             type_check_handler cal q =
               (case parse_date dv of Inl e \<Rightarrow> Inl e
                | Inr d \<Rightarrow> Inr (JDict [(''date'', JStr (isoformat d)), (''type'', JStr tv),
                                         (''result'', JBool (checker d))]))))"
proof (intro conjI impI)
  assume a: "q ''type'' = Some (tv # tvs) \<and> tv \<noteq> [] \<and>
          tv \<notin> set [''holiday'', ''workday'', ''in-lieu'', ''interbank-trading-day'',
                      ''a-share-trading-day'']"
  from a have t: "q ''type'' = Some (tv # tvs)" "tv \<noteq> []"
    by (rule conjunct1, rule conjunct2[THEN conjunct1])
  from a have m: "tv \<notin> set [''holiday'', ''workday'', ''in-lieu'', ''interbank-trading-day'',
                      ''a-share-trading-day'']"
    by (rule conjunct2[THEN conjunct2])
  have n: "map_of (TYPE_CHECKERS cal) tv = None"
    unfolding type_checkers_None by (rule m)
  have "type_check_handler cal q = Inl (ValueError (unknown_type_msg cal tv))"
    by (rule type_check_handler_unknown[OF assms t n])
  from do_GET_ValueError[OF routes_lookup(5) this]
  show "do_GET version cal ''/api/date/type'' q
            = Inr (Response 400 (JDict [(''detail'',
                JStr (''Unknown type '' @ [CHR 0x27] @ tv @ [CHR 0x27] @ ''. Supported types: ''
                  @ ''a-share-trading-day, holiday, in-lieu, interbank-trading-day, workday''
                  @ ''.''))]))"
    by (simp add: unknown_type_msg_def supported_types)
next
  assume "q ''type'' = None \<or> q ''type'' = Some ([] # tvs)"
  from do_GET_ValueError[OF routes_lookup(5) type_check_handler_no_type[OF assms this]]
  show "do_GET version cal ''/api/date/type'' q
            = Inr (Response 400 (JDict [(''detail'', JStr type_required_msg)]))" .
next
  assume a: "q ''type'' = Some (tv # tvs) \<and>
          tv \<in> set [''holiday'', ''workday'', ''in-lieu'', ''interbank-trading-day'',
                      ''a-share-trading-day'']"
  from a have t: "q ''type'' = Some (tv # tvs)"
    by (rule conjunct1)
  from a have m: "tv \<in> set [''holiday'', ''workday'', ''in-lieu'', ''interbank-trading-day'',
                      ''a-share-trading-day'']"
    by (rule conjunct2)
  have "map_of (TYPE_CHECKERS cal) tv \<noteq> None"
    unfolding type_checkers_None using m by (rule not_not[THEN iffD2])
  then obtain checker where c: "map_of (TYPE_CHECKERS cal) tv = Some checker"
    by (cases "map_of (TYPE_CHECKERS cal) tv") simp_all
  from c type_check_handler_known[OF assms t c]
  show "\<exists>checker. map_of (TYPE_CHECKERS cal) tv = Some checker \<and>
             type_check_handler cal q =
               (case parse_date dv of Inl e \<Rightarrow> Inl e
                | Inr d \<Rightarrow> Inr (JDict [(''date'', JStr (isoformat d)), (''type'', JStr tv),
                                         (''result'', JBool (checker d))]))"
    by blast
qed

theorem type_selector_resolution_witness:
  "do_GET ''1.0'' test_calendar ''/api/date/type''
       [''date'' \<mapsto> [''2018-02-16''], ''type'' \<mapsto> [''Holiday'']]
     = Inr (Response 400 (JDict [(''detail'',
         JStr (''Unknown type '' @ [CHR 0x27] @ ''Holiday'' @ [CHR 0x27] @ ''. Supported types: ''
           @ ''a-share-trading-day, holiday, in-lieu, interbank-trading-day, workday.''))]))
   \<and> do_GET ''1.0'' test_calendar ''/api/date/type'' [''date'' \<mapsto> [''2018-02-16'']]
     = Inr (Response 400 (JDict [(''detail'', JStr type_required_msg)]))"
proof -
  define q1 :: query where "q1 = [''date'' \<mapsto> [''2018-02-16''], ''type'' \<mapsto> [''Holiday'']]"
  define q2 :: query where "q2 = [''date'' \<mapsto> [''2018-02-16'']]"
  have d1: "q1 ''date'' = Some (''2018-02-16'' # [])" and t1: "q1 ''type'' = Some (''Holiday'' # [])"
    by (simp_all add: q1_def)
  have d2: "q2 ''date'' = Some (''2018-02-16'' # [])" and t2: "q2 ''type'' = None"
    by (simp_all add: q2_def)
  have ne: "''2018-02-16'' \<noteq> []" by simp
  have A: "do_GET ''1.0'' test_calendar ''/api/date/type'' q1
     = Inr (Response 400 (JDict [(''detail'',
         JStr (''Unknown type '' @ [CHR 0x27] @ ''Holiday'' @ [CHR 0x27] @ ''. Supported types: ''
           @ ''a-share-trading-day, holiday, in-lieu, interbank-trading-day, workday.''))]))"
    using type_selector_resolution[where q = q1 and dv = "''2018-02-16''" and dvs = "[]"
        and tv = "''Holiday''" and tvs = "[]" and version = "''1.0''" and cal = test_calendar,
        OF d1 ne] t1
    by simp
  have B: "do_GET ''1.0'' test_calendar ''/api/date/type'' q2
     = Inr (Response 400 (JDict [(''detail'', JStr type_required_msg)]))"
    using type_selector_resolution[where q = q2 and dv = "''2018-02-16''" and dvs = "[]"
        and tv = "''Holiday''" and tvs = "[]" and version = "''1.0''" and cal = test_calendar,
        OF d2 ne] t2
    by simp
  from A B show ?thesis unfolding q1_def q2_def by (rule conjI)
qed

section \<open>The listings of trading days and \<open>include_weekends\<close>\<close>

lemma first_value_other:
  "k \<noteq> k' \<Longrightarrow> first_value (q(k' := w)) k = first_value q k"
  by (simp add: first_value_def)

lemma range_required_include_weekends:
  "range_required (q(''include_weekends'' := w)) = range_required q"
proof -
  have a: "first_value (q(''include_weekends'' := w)) ''start'' = first_value q ''start''"
    and b: "first_value (q(''include_weekends'' := w)) ''end'' = first_value q ''end''"
    by (simp_all add: first_value_other)
  show ?thesis unfolding range_required_def a b by (rule refl)
qed

lemma range_list_handler_unsupported:
  assumes "q ''include_weekends'' \<noteq> Some []"
  shows "range_list_handler func key False q =
     (case range_required q of
        Inl e \<Rightarrow> Inl e
      | Inr (start, end') \<Rightarrow>
          (case func start end' None of
             Inl e \<Rightarrow> Inl e
           | Inr days \<Rightarrow> Inr (JDict [(key, JList (map (\<lambda>d. JStr (isoformat d)) days))])))"
proof -
  from assms obtain v where "first_value q ''include_weekends'' = Inr v"
    by (cases "q ''include_weekends''"; cases "the (q ''include_weekends'')")
       (auto simp: first_value_def)
  then show ?thesis
    by (simp add: range_list_handler_def split: sum.splits prod.splits)
qed

lemma range_list_handler_include_weekends:
  assumes "w \<noteq> Some []" "q ''include_weekends'' \<noteq> Some []"
  shows "range_list_handler func key False (q(''include_weekends'' := w))
     = range_list_handler func key False q"
proof -
  have "(q(''include_weekends'' := w)) ''include_weekends'' \<noteq> Some []"
    using assms(1) by simp
  from range_list_handler_unsupported[where q = "q(''include_weekends'' := w)", OF this]
    range_list_handler_unsupported[where q = q, OF assms(2)]
  show ?thesis by (simp only: range_required_include_weekends)
qed

lemma do_GET_cong:
  "map_of (routes version cal) path = Some h \<Longrightarrow> h q' = h q \<Longrightarrow>
     do_GET version cal path q' = do_GET version cal path q"
  by (simp add: do_GET_def)

lemma do_GET_OK:
  "map_of (routes version cal) path = Some h \<Longrightarrow> h q = Inr payload \<Longrightarrow>
     do_GET version cal path q = Inr (Response 200 payload)"
  by (simp add: do_GET_def)

lemma range_required_ordered:
  "range_required q = Inr (sd, ed) \<Longrightarrow> \<not> date_less ed sd"
  by (auto simp: range_required_def split: sum.splits if_splits)

lemma filter_range_total:
  "\<not> date_less ed sd \<Longrightarrow> \<exists>days. filter_range sd ed p w = Inr days"
  by (simp add: filter_range_def get_dates_def)

lemma trading_day_listing_OK:
  assumes "range_required q = Inr (sd, ed)" "q ''include_weekends'' \<noteq> Some []"
  shows "\<exists>payload. range_list_handler (\<lambda>s e w. get_interbank_trading_days cal s e)
            ''interbank_trading_days'' False q = Inr payload"
    and "\<exists>payload. range_list_handler (\<lambda>s e w. get_a_share_trading_days cal s e)
            ''a_share_trading_days'' False q = Inr payload"
proof -
  note o = range_required_ordered[where q = q, OF assms(1)]
  note u = range_list_handler_unsupported[where q = q, OF assms(2)]
  from filter_range_total[OF o] obtain d1 where
    "get_interbank_trading_days cal sd ed = Inr d1"
    unfolding get_interbank_trading_days_def by blast
  then show "\<exists>payload. range_list_handler (\<lambda>s e w. get_interbank_trading_days cal s e)
            ''interbank_trading_days'' False q = Inr payload"
    by (simp add: u assms(1))
  from filter_range_total[OF o] obtain d2 where
    "get_a_share_trading_days cal sd ed = Inr d2"
    unfolding get_a_share_trading_days_def by blast
  then show "\<exists>payload. range_list_handler (\<lambda>s e w. get_a_share_trading_days cal s e)
            ''a_share_trading_days'' False q = Inr payload"
    by (simp add: u assms(1))
qed

lemma isoformat_examples:
  "isoformat \<lparr>year = 2018, month = 2, day = 10\<rparr> = ''2018-02-10''"
  "isoformat \<lparr>year = 2018, month = 2, day = 11\<rparr> = ''2018-02-11''"
  "isoformat \<lparr>year = 2018, month = 2, day = 12\<rparr> = ''2018-02-12''"
  by code_simp+

lemma toordinal_examples:
  "toordinal \<lparr>year = 2018, month = 2, day = 10\<rparr> = 736735"
  "toordinal \<lparr>year = 2018, month = 2, day = 12\<rparr> = 736737"
  by (simp_all add: toordinal_def days_before_year_def days_before_month_def is_leap_def)

lemma next_day_examples:
  "next_day \<lparr>year = 2018, month = 2, day = 10\<rparr> = \<lparr>year = 2018, month = 2, day = 11\<rparr>"
  "next_day \<lparr>year = 2018, month = 2, day = 11\<rparr> = \<lparr>year = 2018, month = 2, day = 12\<rparr>"
  by (simp_all add: next_day_def days_in_month_def is_leap_def)

lemma get_dates_20180210_12:
  "get_dates \<lparr>year = 2018, month = 2, day = 10\<rparr> \<lparr>year = 2018, month = 2, day = 12\<rparr>
     = Inr [\<lparr>year = 2018, month = 2, day = 10\<rparr>, \<lparr>year = 2018, month = 2, day = 11\<rparr>,
            \<lparr>year = 2018, month = 2, day = 12\<rparr>]"
  by (simp add: get_dates_def date_less_def toordinal_examples numeral_3_eq_3 next_day_examples)

lemma weekday_examples:
  "weekday \<lparr>year = 2018, month = 2, day = 10\<rparr> = 5"
  "weekday \<lparr>year = 2018, month = 2, day = 12\<rparr> = 0"
  by (simp_all add: weekday_def toordinal_def days_before_year_def days_before_month_def
      is_leap_def)

lemma interbank_days_20180210_12:
  "get_interbank_trading_days test_calendar \<lparr>year = 2018, month = 2, day = 10\<rparr>
       \<lparr>year = 2018, month = 2, day = 12\<rparr>
     = Inr [\<lparr>year = 2018, month = 2, day = 11\<rparr>, \<lparr>year = 2018, month = 2, day = 12\<rparr>]"
  by (simp add: get_interbank_trading_days_def filter_range_def get_dates_20180210_12
      is_interbank_trading_day_def test_calendar_def)

text \<open>
  C9. On the two listings of trading days the parameter \<open>include_weekends\<close> has no
  effect: a range listing that does not support the parameter returns the same for a
  query and for the query with the parameter set to any value or removed, whatever the
  listing function is (the value is read, never parsed, never passed on); so \<open>do_GET\<close>
  gives the same response on both endpoints, and it is a 200 whenever start and end pass
  \<open>_range_required\<close>. The queries are those of \<open>parse_qs\<close>, where a key that is
  present has at least one value.
\<close>

theorem include_weekends_ignored:
  assumes "w \<noteq> Some []" and "q ''include_weekends'' \<noteq> Some []"
    and "path \<in> set [''/api/interbank/trading-days/list'', ''/api/a-share/trading-days/list'']"
  shows "range_list_handler func key False (q(''include_weekends'' := w))
           = range_list_handler func key False q
       \<and> do_GET version cal path (q(''include_weekends'' := w)) = do_GET version cal path q
       \<and> (range_required q = Inr (sd, ed) \<longrightarrow>
            (\<exists>payload. do_GET version cal path (q(''include_weekends'' := w))
                = Inr (Response 200 payload)))"
proof (intro conjI impI)
  note e = range_list_handler_include_weekends[where q = q and w = w, OF assms(1,2)]
  show "range_list_handler func key False (q(''include_weekends'' := w))
           = range_list_handler func key False q"
    by (rule e)
  from assms(3) have p: "path = ''/api/interbank/trading-days/list''
      \<or> path = ''/api/a-share/trading-days/list''"
    by simp
  then show eq: "do_GET version cal path (q(''include_weekends'' := w)) = do_GET version cal path q"
  proof (elim disjE)
    assume p: "path = ''/api/interbank/trading-days/list''"
    show ?thesis unfolding p by (rule do_GET_cong[OF routes_lookup(10) e])
  next
    assume p: "path = ''/api/a-share/trading-days/list''"
    show ?thesis unfolding p by (rule do_GET_cong[OF routes_lookup(11) e])
  qed
  assume r: "range_required q = Inr (sd, ed)"
  note ok = trading_day_listing_OK[where q = q and cal = cal, OF r assms(2)]
  from p have "\<exists>payload. do_GET version cal path q = Inr (Response 200 payload)"
  proof (elim disjE)
    assume p: "path = ''/api/interbank/trading-days/list''"
    from ok(1) obtain payload where "range_list_handler
       (\<lambda>s e w. get_interbank_trading_days cal s e) ''interbank_trading_days'' False q
         = Inr payload" by (rule exE)
    from do_GET_OK[OF routes_lookup(10) this] show ?thesis unfolding p by (rule exI)
  next
    assume p: "path = ''/api/a-share/trading-days/list''"
    from ok(2) obtain payload where "range_list_handler
       (\<lambda>s e w. get_a_share_trading_days cal s e) ''a_share_trading_days'' False q
         = Inr payload" by (rule exE)
    from do_GET_OK[OF routes_lookup(11) this] show ?thesis unfolding p by (rule exI)
  qed
  then show "\<exists>payload. do_GET version cal path (q(''include_weekends'' := w))
                = Inr (Response 200 payload)"
    unfolding eq .
qed

theorem include_weekends_ignored_witness:
  "do_GET ''1.0'' test_calendar ''/api/interbank/trading-days/list''
       [''start'' \<mapsto> [''2018-02-10''], ''end'' \<mapsto> [''2018-02-12''],
        ''include_weekends'' \<mapsto> [''banana'']]
     = Inr (Response 200
         (JDict [(''interbank_trading_days'', JList [JStr ''2018-02-11'', JStr ''2018-02-12''])]))"
proof -
  define q :: query where "q = [''start'' \<mapsto> [''2018-02-10''], ''end'' \<mapsto> [''2018-02-12'']]"
  have iw: "q ''include_weekends'' \<noteq> Some []" by (simp add: q_def)
  have w: "Some [''banana''] \<noteq> Some []" by simp
  have p: "''/api/interbank/trading-days/list''
      \<in> set [''/api/interbank/trading-days/list'', ''/api/a-share/trading-days/list'']"
    by simp
  have r: "range_required q = Inr (\<lparr>year = 2018, month = 2, day = 10\<rparr>,
      \<lparr>year = 2018, month = 2, day = 12\<rparr>)"
    by (simp add: range_required_def first_value_def truthy_def q_def parse_date_20180210
        parse_date_20180212 date_less_def)
  have h: "range_list_handler (\<lambda>s e w. get_interbank_trading_days test_calendar s e)
      ''interbank_trading_days'' False q
     = Inr (JDict [(''interbank_trading_days'', JList [JStr ''2018-02-11'', JStr ''2018-02-12''])])"
    by (simp add: range_list_handler_unsupported[where q = q, OF iw] r
        interbank_days_20180210_12 isoformat_examples)
  have base: "do_GET ''1.0'' test_calendar ''/api/interbank/trading-days/list'' q
     = Inr (Response 200
         (JDict [(''interbank_trading_days'', JList [JStr ''2018-02-11'', JStr ''2018-02-12''])]))"
    by (rule do_GET_OK[OF routes_lookup(10) h])
  from include_weekends_ignored[where q = q and w = "Some [''banana'']" and version = "''1.0''"
      and cal = test_calendar and path = "''/api/interbank/trading-days/list''", OF w iw p,
      THEN conjunct2, THEN conjunct1]
  have "do_GET ''1.0'' test_calendar ''/api/interbank/trading-days/list''
      (q(''include_weekends'' \<mapsto> [''banana''])) 
     = Inr (Response 200
         (JDict [(''interbank_trading_days'', JList [JStr ''2018-02-11'', JStr ''2018-02-12''])]))"
    unfolding base .
  then show ?thesis unfolding q_def .
qed

section \<open>Empty texts\<close>

lemma collect_dates_empty_text:
  "collect_dates dates (Some []) end' = collect_dates dates None end'"
  "collect_dates dates start (Some []) = collect_dates dates start None"
  by (simp_all add: collect_dates_def truthy_def)

lemma collect_dates_empty_missing:
  assumes "dates = None \<or> dates = Some []" "start = Some [] \<or> end' = Some []"
  shows "collect_dates dates start end' = Inl (ValueError missing_dates_msg)"
  using assms by (auto simp: collect_dates_def truthy_def)

lemma collect_query_empty_missing:
  assumes "q ''dates'' = None \<or> q ''dates'' = Some []"
    "q ''start'' \<noteq> Some []" "q ''end'' \<noteq> Some []"
    "q ''start'' = Some ([] # ss) \<or> q ''end'' = Some ([] # es)"
  shows "collect_query q = Inl (ValueError missing_dates_msg)"
proof -
  from assms(2) obtain s where s: "first_value q ''start'' = Inr s"
    by (cases "q ''start''"; cases "the (q ''start'')") (auto simp: first_value_def)
  from assms(3) obtain e where e: "first_value q ''end'' = Inr e"
    by (cases "q ''end''"; cases "the (q ''end'')") (auto simp: first_value_def)
  from assms(4) s e have "s = Some [] \<or> e = Some []"
    by (auto simp: first_value_def)
  from collect_dates_empty_missing[OF assms(1) this] s e
  show ?thesis by (simp add: collect_query_def)
qed

lemma range_required_empty_missing:
  assumes "q ''start'' \<noteq> Some []" "q ''end'' \<noteq> Some []"
    "q ''start'' = Some ([] # ss) \<or> q ''end'' = Some ([] # es)"
  shows "range_required q = Inl (ValueError range_required_msg)"
proof -
  from assms(1) obtain s where s: "first_value q ''start'' = Inr s"
    by (cases "q ''start''"; cases "the (q ''start'')") (auto simp: first_value_def)
  from assms(2) obtain e where e: "first_value q ''end'' = Inr e"
    by (cases "q ''end''"; cases "the (q ''end'')") (auto simp: first_value_def)
  from assms(3) s e have "\<not> truthy s \<or> \<not> truthy e"
    by (auto simp: first_value_def truthy_def)
  with s e show ?thesis by (simp add: range_required_def)
qed

lemma type_check_handler_empty_date:
  "q ''date'' = Some ([] # ds) \<Longrightarrow> type_check_handler cal q = Inl (ValueError date_required_msg)"
  by (simp add: type_check_handler_def first_value_def truthy_def)

lemma type_check_handler_empty_type:
  "q ''date'' = Some (dv # ds) \<Longrightarrow> dv \<noteq> [] \<Longrightarrow> q ''type'' = Some ([] # ts) \<Longrightarrow>
     type_check_handler cal q = Inl (ValueError type_required_msg)"
  by (simp add: type_check_handler_def first_value_def truthy_def)

lemma type_check_handler_empty_type_any_date:
  assumes "q ''date'' \<noteq> Some []" "q ''type'' = Some ([] # ts)"
  shows "type_check_handler cal q = Inl (ValueError date_required_msg)
     \<or> type_check_handler cal q = Inl (ValueError type_required_msg)"
proof (cases "q ''date''")
  case None
  then show ?thesis by (simp add: type_check_handler_def first_value_def truthy_def)
next
  case (Some vs)
  with assms(1) obtain dv ds where v: "q ''date'' = Some (dv # ds)" by (cases vs) auto
  show ?thesis
  proof (cases "dv = []")
    case True
    with v type_check_handler_empty_date[of q ds cal] show ?thesis by simp
  next
    case False
    from type_check_handler_empty_type[OF v False assms(2)] show ?thesis by simp
  qed
qed

lemma missing_messages_distinct:
  "missing_dates_msg \<noteq> ''Invalid date format: '' @ v @ ''. Expected YYYY-MM-DD.''"
  "range_required_msg \<noteq> ''Invalid date format: '' @ v @ ''. Expected YYYY-MM-DD.''"
  "date_required_msg \<noteq> ''Invalid date format: '' @ v @ ''. Expected YYYY-MM-DD.''"
  "type_required_msg \<noteq> ''Invalid date format: '' @ v @ ''. Expected YYYY-MM-DD.''"
  "date_required_msg \<noteq> unknown_type_msg cal v"
  "type_required_msg \<noteq> unknown_type_msg cal v"
  by (simp_all add: missing_dates_msg_def range_required_msg_def date_required_msg_def
      type_required_msg_def unknown_type_msg_def)

text \<open>
  C10. An empty text for a required parameter is treated as an absent one, not as a
  malformed one. In \<open>_collect_dates\<close> an empty start or end gives what an absent one
  gives, and, where no explicit list makes the range unnecessary, that is the error of
  the missing date parameters. In \<open>_range_required\<close> an empty start or end gives the
  error of the required range. In \<open>_type_check_handler\<close> an empty date gives the error of
  the required date, and an empty type the error of the required type when the date is
  there, the error of the required date otherwise. \<open>do_GET\<close> answers 400 with these
  details, and none of these messages is that of an invalid date format or of an unknown
  type.
\<close>

theorem empty_text_is_absent:
  "collect_dates dates (Some []) end' = collect_dates dates None end'
   \<and> collect_dates dates start (Some []) = collect_dates dates start None
   \<and> ((dates = None \<or> dates = Some []) \<and> (start = Some [] \<or> end' = Some []) \<longrightarrow>
        collect_dates dates start end' = Inl (ValueError missing_dates_msg))
   \<and> ((q ''start'' \<noteq> Some [] \<and> q ''end'' \<noteq> Some []) \<and>
        (q ''start'' = Some ([] # ss) \<or> q ''end'' = Some ([] # es)) \<longrightarrow>
        range_required q = Inl (ValueError range_required_msg)
        \<and> (path \<in> set [''/api/holidays/range'', ''/api/workdays/range'',
              ''/api/interbank/trading-days/list'', ''/api/a-share/trading-days/list''] \<longrightarrow>
            do_GET version cal path q
              = Inr (Response 400 (JDict [(''detail'', JStr range_required_msg)])))
        \<and> ((q ''dates'' = None \<or> q ''dates'' = Some []) \<and>
            path \<in> set [''/api/workdays'', ''/api/holidays'', ''/api/in-lieu'',
              ''/api/holiday/detail'', ''/api/interbank/trading-days'',
              ''/api/a-share/trading-days''] \<longrightarrow>
            do_GET version cal path q
              = Inr (Response 400 (JDict [(''detail'', JStr missing_dates_msg)]))))
   \<and> (q ''date'' = Some ([] # ds) \<longrightarrow>
        type_check_handler cal q = Inl (ValueError date_required_msg)
        \<and> do_GET version cal ''/api/date/type'' q
              = Inr (Response 400 (JDict [(''detail'', JStr date_required_msg)])))
   \<and> (q ''date'' = Some (dv # ds) \<and> dv \<noteq> [] \<and> q ''type'' = Some ([] # ts) \<longrightarrow>
        type_check_handler cal q = Inl (ValueError type_required_msg)
        \<and> do_GET version cal ''/api/date/type'' q
              = Inr (Response 400 (JDict [(''detail'', JStr type_required_msg)])))
   \<and> (q ''date'' \<noteq> Some [] \<and> q ''type'' = Some ([] # ts) \<longrightarrow>
        type_check_handler cal q = Inl (ValueError date_required_msg)
        \<or> type_check_handler cal q = Inl (ValueError type_required_msg))
   \<and> (\<forall>m \<in> set [missing_dates_msg, range_required_msg, date_required_msg, type_required_msg].
        m \<noteq> ''Invalid date format: '' @ v @ ''. Expected YYYY-MM-DD.'')
   \<and> date_required_msg \<noteq> unknown_type_msg cal v
   \<and> type_required_msg \<noteq> unknown_type_msg cal v"
proof -
  have c3: "(dates = None \<or> dates = Some []) \<and> (start = Some [] \<or> end' = Some []) \<longrightarrow>
        collect_dates dates start end' = Inl (ValueError missing_dates_msg)"
    using collect_dates_empty_missing[of dates start end'] by (intro impI, elim conjE)
  have c4: "(q ''start'' \<noteq> Some [] \<and> q ''end'' \<noteq> Some []) \<and>
        (q ''start'' = Some ([] # ss) \<or> q ''end'' = Some ([] # es)) \<longrightarrow>
        range_required q = Inl (ValueError range_required_msg)
        \<and> (path \<in> set [''/api/holidays/range'', ''/api/workdays/range'',
              ''/api/interbank/trading-days/list'', ''/api/a-share/trading-days/list''] \<longrightarrow>
            do_GET version cal path q
              = Inr (Response 400 (JDict [(''detail'', JStr range_required_msg)])))
        \<and> ((q ''dates'' = None \<or> q ''dates'' = Some []) \<and>
            path \<in> set [''/api/workdays'', ''/api/holidays'', ''/api/in-lieu'',
              ''/api/holiday/detail'', ''/api/interbank/trading-days'',
              ''/api/a-share/trading-days''] \<longrightarrow>
            do_GET version cal path q
              = Inr (Response 400 (JDict [(''detail'', JStr missing_dates_msg)])))"
  proof (intro impI, elim conjE, intro conjI impI)
    assume a: "q ''start'' \<noteq> Some []" "q ''end'' \<noteq> Some []"
      "q ''start'' = Some ([] # ss) \<or> q ''end'' = Some ([] # es)"
    show rr: "range_required q = Inl (ValueError range_required_msg)"
      by (rule range_required_empty_missing[where q = q, OF a])
    note rl = range_list_handler_error[OF rr]
    {
      assume "path \<in> set [''/api/holidays/range'', ''/api/workdays/range'',
              ''/api/interbank/trading-days/list'', ''/api/a-share/trading-days/list'']"
      then have "path = ''/api/holidays/range'' \<or> path = ''/api/workdays/range''
        \<or> path = ''/api/interbank/trading-days/list'' \<or> path = ''/api/a-share/trading-days/list''"
        by simp
      then show "do_GET version cal path q
              = Inr (Response 400 (JDict [(''detail'', JStr range_required_msg)]))"
      proof (elim disjE)
        assume p: "path = ''/api/holidays/range''"
        show ?thesis unfolding p by (rule do_GET_ValueError[OF routes_lookup(6) rl])
      next
        assume p: "path = ''/api/workdays/range''"
        show ?thesis unfolding p by (rule do_GET_ValueError[OF routes_lookup(7) rl])
      next
        assume p: "path = ''/api/interbank/trading-days/list''"
        show ?thesis unfolding p by (rule do_GET_ValueError[OF routes_lookup(10) rl])
      next
        assume p: "path = ''/api/a-share/trading-days/list''"
        show ?thesis unfolding p by (rule do_GET_ValueError[OF routes_lookup(11) rl])
      qed
    }
    {
      assume b: "(q ''dates'' = None \<or> q ''dates'' = Some []) \<and>
            path \<in> set [''/api/workdays'', ''/api/holidays'', ''/api/in-lieu'',
              ''/api/holiday/detail'', ''/api/interbank/trading-days'',
              ''/api/a-share/trading-days'']"
      from b have d: "q ''dates'' = None \<or> q ''dates'' = Some []" by (rule conjunct1)
      have cq: "collect_query q = Inl (ValueError missing_dates_msg)"
        by (rule collect_query_empty_missing[where q = q, OF d a])
      note h = collect_handlers_error[OF cq]
      from b have "path = ''/api/workdays'' \<or> path = ''/api/holidays'' \<or> path = ''/api/in-lieu''
        \<or> path = ''/api/holiday/detail'' \<or> path = ''/api/interbank/trading-days''
        \<or> path = ''/api/a-share/trading-days''"
        by simp
      then show "do_GET version cal path q
              = Inr (Response 400 (JDict [(''detail'', JStr missing_dates_msg)]))"
      proof (elim disjE)
        assume p: "path = ''/api/workdays''"
        show ?thesis unfolding p by (rule do_GET_ValueError[OF routes_lookup(1) h(1)])
      next
        assume p: "path = ''/api/holidays''"
        show ?thesis unfolding p by (rule do_GET_ValueError[OF routes_lookup(2) h(1)])
      next
        assume p: "path = ''/api/in-lieu''"
        show ?thesis unfolding p by (rule do_GET_ValueError[OF routes_lookup(3) h(1)])
      next
        assume p: "path = ''/api/holiday/detail''"
        show ?thesis unfolding p by (rule do_GET_ValueError[OF routes_lookup(4) h(2)])
      next
        assume p: "path = ''/api/interbank/trading-days''"
        show ?thesis unfolding p by (rule do_GET_ValueError[OF routes_lookup(8) h(3)])
      next
        assume p: "path = ''/api/a-share/trading-days''"
        show ?thesis unfolding p by (rule do_GET_ValueError[OF routes_lookup(9) h(4)])
      qed
    }
  qed
  have c5: "q ''date'' = Some ([] # ds) \<longrightarrow>
        type_check_handler cal q = Inl (ValueError date_required_msg)
        \<and> do_GET version cal ''/api/date/type'' q
              = Inr (Response 400 (JDict [(''detail'', JStr date_required_msg)]))"
  proof (intro impI conjI)
    assume a: "q ''date'' = Some ([] # ds)"
    show h: "type_check_handler cal q = Inl (ValueError date_required_msg)"
      by (rule type_check_handler_empty_date[where q = q, OF a])
    show "do_GET version cal ''/api/date/type'' q
              = Inr (Response 400 (JDict [(''detail'', JStr date_required_msg)]))"
      by (rule do_GET_ValueError[OF routes_lookup(5) h])
  qed
  have c6: "q ''date'' = Some (dv # ds) \<and> dv \<noteq> [] \<and> q ''type'' = Some ([] # ts) \<longrightarrow>
        type_check_handler cal q = Inl (ValueError type_required_msg)
        \<and> do_GET version cal ''/api/date/type'' q
              = Inr (Response 400 (JDict [(''detail'', JStr type_required_msg)]))"
  proof (intro impI, elim conjE, intro conjI)
    assume a: "q ''date'' = Some (dv # ds)" "dv \<noteq> []" "q ''type'' = Some ([] # ts)"
    show h: "type_check_handler cal q = Inl (ValueError type_required_msg)"
      by (rule type_check_handler_empty_type[where q = q, OF a])
    show "do_GET version cal ''/api/date/type'' q
              = Inr (Response 400 (JDict [(''detail'', JStr type_required_msg)]))"
      by (rule do_GET_ValueError[OF routes_lookup(5) h])
  qed
  have c7: "q ''date'' \<noteq> Some [] \<and> q ''type'' = Some ([] # ts) \<longrightarrow>
        type_check_handler cal q = Inl (ValueError date_required_msg)
        \<or> type_check_handler cal q = Inl (ValueError type_required_msg)"
    using type_check_handler_empty_type_any_date[where q = q and ts = ts and cal = cal]
    by (intro impI, elim conjE)
  have c8: "\<forall>m \<in> set [missing_dates_msg, range_required_msg, date_required_msg, type_required_msg].
        m \<noteq> ''Invalid date format: '' @ v @ ''. Expected YYYY-MM-DD.''"
    using missing_messages_distinct(1-4)[of v] by simp
  from collect_dates_empty_text[of dates end'] collect_dates_empty_text(2)[of dates start]
    c3 c4 c5 c6 c7 c8 missing_messages_distinct(5,6)[of cal v]
  show ?thesis by (intro conjI)
qed


theorem empty_text_is_absent_witness:
  "collect_dates None (Some []) (Some ''2018-02-10'') = Inl (ValueError missing_dates_msg)
   \<and> do_GET ''1.0'' test_calendar ''/api/workdays/range''
        [''start'' \<mapsto> [[]], ''end'' \<mapsto> [''2018-02-10'']]
      = Inr (Response 400 (JDict [(''detail'', JStr range_required_msg)]))
   \<and> do_GET ''1.0'' test_calendar ''/api/workdays''
        [''start'' \<mapsto> [[]], ''end'' \<mapsto> [''2018-02-10'']]
      = Inr (Response 400 (JDict [(''detail'', JStr missing_dates_msg)]))
   \<and> do_GET ''1.0'' test_calendar ''/api/date/type''
        [''date'' \<mapsto> [[]], ''type'' \<mapsto> [''holiday'']]
      = Inr (Response 400 (JDict [(''detail'', JStr date_required_msg)]))
   \<and> do_GET ''1.0'' test_calendar ''/api/date/type''
        [''date'' \<mapsto> [''2018-02-16''], ''type'' \<mapsto> [[]]]
      = Inr (Response 400 (JDict [(''detail'', JStr type_required_msg)]))"
proof -
  define q1 :: query where "q1 = [''start'' \<mapsto> [[]], ''end'' \<mapsto> [''2018-02-10'']]"
  define q2 :: query where "q2 = [''date'' \<mapsto> [[]], ''type'' \<mapsto> [''holiday'']]"
  define q3 :: query where "q3 = [''date'' \<mapsto> [''2018-02-16''], ''type'' \<mapsto> [[]]]"
  have f1: "q1 ''start'' \<noteq> Some []" "q1 ''end'' \<noteq> Some []" "q1 ''start'' = Some ([] # [])"
    "q1 ''dates'' = None"
    by (simp_all add: q1_def)
  have f2: "q2 ''date'' = Some ([] # [])" by (simp add: q2_def)
  have f3: "q3 ''date'' = Some (''2018-02-16'' # [])" "q3 ''type'' = Some ([] # [])"
    by (simp_all add: q3_def)
  have A: "collect_dates None (Some []) (Some ''2018-02-10'') = Inl (ValueError missing_dates_msg)"
    using empty_text_is_absent[where dates = None and start = "Some []"
        and end' = "Some ''2018-02-10''", THEN conjunct2, THEN conjunct2, THEN conjunct1]
    by simp
  have B: "do_GET ''1.0'' test_calendar ''/api/workdays/range'' q1
      = Inr (Response 400 (JDict [(''detail'', JStr range_required_msg)]))"
    using empty_text_is_absent[where q = q1 and ss = "[]" and path = "''/api/workdays/range''"
        and version = "''1.0''" and cal = test_calendar, THEN conjunct2, THEN conjunct2, THEN conjunct2, THEN conjunct1] f1
    by simp
  have C: "do_GET ''1.0'' test_calendar ''/api/workdays'' q1
      = Inr (Response 400 (JDict [(''detail'', JStr missing_dates_msg)]))"
    using empty_text_is_absent[where q = q1 and ss = "[]" and path = "''/api/workdays''"
        and version = "''1.0''" and cal = test_calendar, THEN conjunct2, THEN conjunct2, THEN conjunct2, THEN conjunct1] f1
    by simp
  have D: "do_GET ''1.0'' test_calendar ''/api/date/type'' q2
      = Inr (Response 400 (JDict [(''detail'', JStr date_required_msg)]))"
    using empty_text_is_absent[where q = q2 and ds = "[]" and version = "''1.0''"
        and cal = test_calendar, THEN conjunct2, THEN conjunct2, THEN conjunct2, THEN conjunct2, THEN conjunct1] f2
    by simp
  have E: "do_GET ''1.0'' test_calendar ''/api/date/type'' q3
      = Inr (Response 400 (JDict [(''detail'', JStr type_required_msg)]))"
    using empty_text_is_absent[where q = q3 and ds = "[]" and dv = "''2018-02-16''"
        and ts = "[]" and version = "''1.0''" and cal = test_calendar, THEN conjunct2, THEN conjunct2, THEN conjunct2, THEN conjunct2, THEN conjunct2, THEN conjunct1] f3
    by simp
  from A B C D E show ?thesis unfolding q1_def q2_def q3_def by (intro conjI)
qed

section \<open>Boolean flags\<close>

text \<open>
  C8. \<open>_parse_bool\<close> returns the default for an absent text, true for a text whose lower
  case is one of true, 1, yes, on, false for one whose lower case is one of false, 0, no,
  off, and raises the error of an invalid boolean for every other text.
\<close>

theorem parse_bool_tristate:
  "parse_bool None dflt = Inr dflt
   \<and> (lower s \<in> {''true'', ''1'', ''yes'', ''on''} \<longrightarrow> parse_bool (Some s) dflt = Inr True)
   \<and> (lower s \<in> {''false'', ''0'', ''no'', ''off''} \<longrightarrow> parse_bool (Some s) dflt = Inr False)
   \<and> (lower s \<notin> {''true'', ''1'', ''yes'', ''on'', ''false'', ''0'', ''no'', ''off''} \<longrightarrow>
        parse_bool (Some s) dflt
          = Inl (ValueError ''Boolean parameters accept true/false/1/0/yes/no/on/off''))"
  by (auto simp: parse_bool_def Let_def)

theorem parse_bool_tristate_witness:
  "parse_bool (Some ''YES'') False = Inr True
   \<and> parse_bool (Some ''Off'') True = Inr False
   \<and> parse_bool (Some ''banana'') True
        = Inl (ValueError ''Boolean parameters accept true/false/1/0/yes/no/on/off'')"
  using parse_bool_tristate [of False "''YES''"] parse_bool_tristate [of True "''Off''"]
    parse_bool_tristate [of True "''banana''"]
  by (simp add: lower_examples)

end
